theory Spec2Isabelle
  imports Complex_Main
begin

section \<open>Values\<close>

text \<open>
  Structured values of the schema-less fields (\<open>z.any()\<close> inputs, \<open>column.json\<close> columns).
  \<open>JNull\<close> is JavaScript's \<open>null\<close>, which is also what an optional json column holds when
  nothing was stored. An input field of type \<open>any\<close> is a \<open>json option\<close>: \<open>None\<close> is
  \<open>undefined\<close> (key absent), \<open>Some JNull\<close> is an explicit \<open>null\<close>.
\<close>

datatype json =
    JNull
  | JBool bool
  | JNum int
  | JStr string
  | JArr "json list"
  | JObj "(string \<times> json) list"

text \<open>\<open>new Date()\<close>: milliseconds since the epoch, handed to every handler.\<close>

type_synonym date = int

text \<open>\<open>a ?? b\<close> on an optional input of a non-nullable schema (\<open>undefined\<close> falls through).\<close>

fun nullish :: "'a option \<Rightarrow> 'a \<Rightarrow> 'a" where
  "nullish None d = d"
| "nullish (Some v) d = v"

text \<open>\<open>a ?? b\<close> on an \<open>any\<close> input: both \<open>undefined\<close> and \<open>null\<close> fall through.\<close>

fun nullish_any :: "json option \<Rightarrow> json \<Rightarrow> json" where
  "nullish_any None d = d"
| "nullish_any (Some JNull) d = d"
| "nullish_any (Some v) d = v"

text \<open>An \<open>any\<close> input written to a json column: \<open>undefined\<close> is stored as null.\<close>

fun json_column :: "json option \<Rightarrow> json" where
  "json_column None = JNull"
| "json_column (Some v) = v"

section \<open>Tables (db/tables.ts)\<close>

record Game =
  g_id :: int
  g_ownerId :: "string option"
  g_name :: string
  g_description :: "string option"
  g_gameType :: string
  g_difficultyLevels :: json
  g_isActive :: bool
  g_createdAt :: date

datatype SessionStatus = in_progress | completed | abandoned

record Session =
  s_id :: int
  s_gameId :: int
  s_userId :: string
  s_status :: SessionStatus
  s_totalScore :: int
  s_difficulty :: "string option"
  s_startedAt :: date
  s_endedAt :: "date option"
  s_meta :: json

record Round =
  r_id :: int
  r_sessionId :: int
  r_roundNumber :: int
  r_prompt :: json
  r_response :: json
  r_isCorrect :: bool
  r_score :: int
  r_createdAt :: date

record Performance =
  p_id :: int
  p_userId :: string
  p_gameId :: int
  p_totalSessions :: int
  p_averageScore :: real
  p_bestScore :: real
  p_difficultyPreference :: "string option"
  p_updatedAt :: date

record store =
  MemoryGames :: "Game list"
  MemorySessions :: "Session list"
  MemoryRounds :: "Round list"
  MemoryPerformance :: "Performance list"

definition empty_store :: store where
  "empty_store =
     \<lparr>MemoryGames = [], MemorySessions = [], MemoryRounds = [], MemoryPerformance = []\<rparr>"

section \<open>The query operators of astro:db\<close>

text \<open>
  \<open>eq\<close>, \<open>and\<close> and \<open>or\<close> are the operators that astro:db re-exports from its query
  builder. They build the SQL condition of a \<open>where\<close> clause: \<open>eq(c, v)\<close> is the comparison
  \<open>c = v\<close>, and a SQL comparison with a NULL operand is neither true nor false (the query
  builder has a separate \<open>isNull\<close> for that test). A condition is therefore three-valued,
  \<open>None\<close> being SQL's unknown, \<open>and\<close>/\<open>or\<close> are the three-valued connectives, and a
  \<open>where\<close> clause keeps the rows whose condition is true.
\<close>

fun eq_sql :: "'a option \<Rightarrow> 'a option \<Rightarrow> bool option" where
  "eq_sql (Some x) (Some y) = Some (x = y)"
| "eq_sql _ _ = None"

fun and_sql :: "bool option \<Rightarrow> bool option \<Rightarrow> bool option" where
  "and_sql (Some False) _ = Some False"
| "and_sql _ (Some False) = Some False"
| "and_sql (Some True) (Some True) = Some True"
| "and_sql _ _ = None"

fun or_sql :: "bool option \<Rightarrow> bool option \<Rightarrow> bool option" where
  "or_sql (Some True) _ = Some True"
| "or_sql _ (Some True) = Some True"
| "or_sql (Some False) (Some False) = Some False"
| "or_sql _ _ = None"

definition select_where :: "('r \<Rightarrow> bool option) \<Rightarrow> 'r list \<Rightarrow> 'r list" where
  "select_where c rows = filter (\<lambda>r. c r = Some True) rows"

definition limit :: "nat \<Rightarrow> 'r list \<Rightarrow> 'r list" where
  "limit n rows = take n rows"

text \<open>The destructuring \<open>const [x] = rows\<close>: the first row, or \<open>undefined\<close>.\<close>

fun first :: "'r list \<Rightarrow> 'r option" where
  "first [] = None"
| "first (x # _) = Some x"

text \<open>
  \<open>update(T).set(f).where(c).returning()\<close>: every row whose condition is true is
  rewritten in place; the rewritten rows are returned.
\<close>

definition update_where ::
  "('r \<Rightarrow> 'r) \<Rightarrow> ('r \<Rightarrow> bool option) \<Rightarrow> 'r list \<Rightarrow> 'r list \<times> 'r list" where
  "update_where f c rows =
     (map (\<lambda>r. if c r = Some True then f r else r) rows, map f (select_where c rows))"

text \<open>
  The \<open>autoIncrement\<close> primary key: one more than the largest id in the table, 1 for an
  empty table (no operation deletes a row, so the largest id in use is the largest id ever
  used).
\<close>

fun next_id :: "int list \<Rightarrow> int" where
  "next_id [] = 1"
| "next_id (i # ids) = fold max ids i + 1"

section \<open>Errors and the request context\<close>

datatype ErrorCode = UNAUTHORIZED | NOT_FOUND

text \<open>
  \<open>ActionError\<close> is what the handlers throw; \<open>ActionInputError\<close> is what \<open>defineAction\<close>
  raises, with the failing fields, when the input does not parse against the schema. The
  other two come from the database client, which the handlers do not catch:
  \<open>NotNullConstraint\<close> when an insert leaves the named non-optional column null, and
  \<open>RangeError\<close> when a row it hands back holds an integer that is not a safe integer.
\<close>

datatype error =
    ActionError ErrorCode string
  | ActionInputError "string list"
  | NotNullConstraint string
  | RangeError

section \<open>Numbers that come back from the database\<close>

text \<open>
  The schemas take any JavaScript number that is an integer (\<open>z.number().int()\<close>), and any
  number at all for the two scores of MemoryPerformance; nothing bounds them. A number
  column has integer affinity: a number without a fraction and below \<open>2^63\<close> in magnitude is
  stored as an integer, any other number as a float. When the client hands a row back, an
  integer beyond \<open>Number.MAX_SAFE_INTEGER\<close> in magnitude makes it throw; a float comes back
  as it is. That happens on every \<open>select\<close> and every \<open>returning\<close>, the latter after the
  statement has been carried out.

  The check below concerns the numbers that come from the caller. The id columns, and the
  columns that refer to them, hold ids that the tables assigned, counting from 1.
\<close>

definition safe_integer :: "int \<Rightarrow> bool" where
  "safe_integer n \<longleftrightarrow> - (2 ^ 53 - 1) \<le> n \<and> n \<le> 2 ^ 53 - 1"

definition reads_back :: "int \<Rightarrow> bool" where
  "reads_back n \<longleftrightarrow> safe_integer n \<or> n \<le> - (2 ^ 63) \<or> 2 ^ 63 \<le> n"

definition number_reads_back :: "real \<Rightarrow> bool" where
  "number_reads_back x \<longleftrightarrow> (if of_int \<lfloor>x\<rfloor> = x then reads_back \<lfloor>x\<rfloor> else True)"

definition session_reads_back :: "Session \<Rightarrow> bool" where
  "session_reads_back s \<longleftrightarrow> reads_back (s_totalScore s)"

definition round_reads_back :: "Round \<Rightarrow> bool" where
  "round_reads_back r \<longleftrightarrow> reads_back (r_roundNumber r) \<and> reads_back (r_score r)"

definition performance_reads_back :: "Performance \<Rightarrow> bool" where
  "performance_reads_back p \<longleftrightarrow>
     reads_back (p_totalSessions p) \<and> number_reads_back (p_averageScore p) \<and>
     number_reads_back (p_bestScore p)"

text \<open>The rows of a result set, as the client hands them to the handler.\<close>

definition read_rows :: "('r \<Rightarrow> bool) \<Rightarrow> 'r list \<Rightarrow> error + 'r list" where
  "read_rows ok rows = (if list_all ok rows then Inr rows else Inl RangeError)"

record User =
  user_id :: string

record Locals =
  user :: "User option"

record ActionAPIContext =
  locals :: "Locals option"

definition requireUser :: "ActionAPIContext \<Rightarrow> error + User" where
  "requireUser context =
     (case locals context of
        None \<Rightarrow> Inl (ActionError UNAUTHORIZED ''You must be signed in to perform this action.'')
      | Some l \<Rightarrow>
          (case user l of
             None \<Rightarrow> Inl (ActionError UNAUTHORIZED ''You must be signed in to perform this action.'')
           | Some u \<Rightarrow> Inr u))"

text \<open>The context of a request made by the signed-in user \<open>u\<close>.\<close>

definition signed_in :: "string \<Rightarrow> ActionAPIContext" where
  "signed_in u = \<lparr>locals = Some \<lparr>user = Some \<lparr>user_id = u\<rparr>\<rparr>\<rparr>"

text \<open>
  \<open>defineAction({input, handler})\<close>: the input is parsed against the schema first (here:
  the list of fields that fail their refinement; types are enforced by the input records),
  and the handler runs only on an input that parsed.
\<close>

definition defineAction ::
  "('i \<Rightarrow> string list) \<Rightarrow> ('i \<Rightarrow> ActionAPIContext \<Rightarrow> store \<Rightarrow> (error + 'o) \<times> store)
     \<Rightarrow> 'i \<Rightarrow> ActionAPIContext \<Rightarrow> store \<Rightarrow> (error + 'o) \<times> store" where
  "defineAction schema handler inp context st =
     (case schema inp of
        [] \<Rightarrow> handler inp context st
      | issues \<Rightarrow> (Inl (ActionInputError issues), st))"

definition issue :: "bool \<Rightarrow> string \<Rightarrow> string list" where
  "issue ok field = (if ok then [] else [field])"

section \<open>createGame\<close>

record CreateGameInput =
  cg_name :: string
  cg_description :: "string option"
  cg_gameType :: string
  cg_difficultyLevels :: "json option"
  cg_isActive :: "bool option"

definition createGame_input :: "CreateGameInput \<Rightarrow> string list" where
  "createGame_input inp =
     issue (1 \<le> length (cg_name inp)) ''name'' @
     issue (1 \<le> length (cg_gameType inp)) ''gameType''"

definition createGame_handler ::
  "date \<Rightarrow> CreateGameInput \<Rightarrow> ActionAPIContext \<Rightarrow> store \<Rightarrow> (error + Game) \<times> store" where
  "createGame_handler now inp context st =
     (case requireUser context of
        Inl e \<Rightarrow> (Inl e, st)
      | Inr u \<Rightarrow>
          (let game = \<lparr>g_id = next_id (map g_id (MemoryGames st)),
                       g_ownerId = Some (user_id u),
                       g_name = cg_name inp,
                       g_description = cg_description inp,
                       g_gameType = cg_gameType inp,
                       g_difficultyLevels = json_column (cg_difficultyLevels inp),
                       g_isActive = nullish (cg_isActive inp) True,
                       g_createdAt = now\<rparr>
           in (Inr game, st\<lparr>MemoryGames := MemoryGames st @ [game]\<rparr>)))"

definition createGame ::
  "date \<Rightarrow> CreateGameInput \<Rightarrow> ActionAPIContext \<Rightarrow> store \<Rightarrow> (error + Game) \<times> store" where
  "createGame now = defineAction createGame_input (createGame_handler now)"

section \<open>updateGame\<close>

record UpdateGameInput =
  ug_id :: int
  ug_name :: "string option"
  ug_description :: "string option"
  ug_gameType :: "string option"
  ug_difficultyLevels :: "json option"
  ug_isActive :: "bool option"

definition updateGame_input :: "UpdateGameInput \<Rightarrow> string list" where
  "updateGame_input inp =
     issue (case ug_name inp of None \<Rightarrow> True | Some n \<Rightarrow> 1 \<le> length n) ''name''"

text \<open>The values of \<open>rest\<close> and of \<open>updateData: Record<string, unknown>\<close>.\<close>

datatype unknown =
    Undefined
  | Str string
  | Boolean bool
  | Any json

fun opt :: "('a \<Rightarrow> unknown) \<Rightarrow> 'a option \<Rightarrow> unknown" where
  "opt f None = Undefined"
| "opt f (Some v) = f v"

text \<open>\<open>Object.entries(rest)\<close>, where \<open>const { id, ...rest } = input\<close>.\<close>

definition rest_entries :: "UpdateGameInput \<Rightarrow> (string \<times> unknown) list" where
  "rest_entries inp =
     [(''name'', opt Str (ug_name inp)),
      (''description'', opt Str (ug_description inp)),
      (''gameType'', opt Str (ug_gameType inp)),
      (''difficultyLevels'', opt Any (ug_difficultyLevels inp)),
      (''isActive'', opt Boolean (ug_isActive inp))]"

text \<open>The loop that copies every entry whose value is not \<open>undefined\<close> into \<open>updateData\<close>.\<close>

fun copy_defined :: "(string \<times> unknown) list \<Rightarrow> (string \<times> unknown) list" where
  "copy_defined [] = []"
| "copy_defined ((key, v) # es) =
     (if v \<noteq> Undefined then (key, v) # copy_defined es else copy_defined es)"

text \<open>\<open>.set(updateData)\<close> on a row of MemoryGames: each key assigns its column.\<close>

fun set_column :: "string \<times> unknown \<Rightarrow> Game \<Rightarrow> Game" where
  "set_column (key, Str v) g =
     (if key = ''name'' then g\<lparr>g_name := v\<rparr>
      else if key = ''description'' then g\<lparr>g_description := Some v\<rparr>
      else if key = ''gameType'' then g\<lparr>g_gameType := v\<rparr>
      else g)"
| "set_column (key, Boolean v) g =
     (if key = ''isActive'' then g\<lparr>g_isActive := v\<rparr> else g)"
| "set_column (key, Any v) g =
     (if key = ''difficultyLevels'' then g\<lparr>g_difficultyLevels := v\<rparr> else g)"
| "set_column (key, Undefined) g = g"

definition set_game :: "(string \<times> unknown) list \<Rightarrow> Game \<Rightarrow> Game" where
  "set_game updateData g = fold set_column updateData g"

definition owned_game :: "int \<Rightarrow> string \<Rightarrow> Game \<Rightarrow> bool option" where
  "owned_game gid uid g =
     and_sql (eq_sql (Some (g_id g)) (Some gid)) (eq_sql (g_ownerId g) (Some uid))"

definition updateGame_handler ::
  "UpdateGameInput \<Rightarrow> ActionAPIContext \<Rightarrow> store \<Rightarrow> (error + Game option) \<times> store" where
  "updateGame_handler inp context st =
     (case requireUser context of
        Inl e \<Rightarrow> (Inl e, st)
      | Inr u \<Rightarrow>
          (case first (limit 1 (select_where (owned_game (ug_id inp) (user_id u)) (MemoryGames st))) of
             None \<Rightarrow> (Inl (ActionError NOT_FOUND ''Game not found.''), st)
           | Some existing \<Rightarrow>
               (let updateData = copy_defined (rest_entries inp)
                in if length updateData = 0 then (Inr (Some existing), st)
                   else
                     (let (rows, returning) =
                            update_where (set_game updateData)
                              (owned_game (ug_id inp) (user_id u)) (MemoryGames st)
                      in (Inr (first returning), st\<lparr>MemoryGames := rows\<rparr>)))))"

definition updateGame ::
  "UpdateGameInput \<Rightarrow> ActionAPIContext \<Rightarrow> store \<Rightarrow> (error + Game option) \<times> store" where
  "updateGame = defineAction updateGame_input updateGame_handler"

section \<open>listMyGames\<close>

record ListMyGamesInput =
  lg_includeInactive :: "bool option"

definition listMyGames_handler ::
  "ListMyGamesInput option \<Rightarrow> ActionAPIContext \<Rightarrow> store \<Rightarrow> (error + Game list) \<times> store" where
  "listMyGames_handler inp context st =
     (case requireUser context of
        Inl e \<Rightarrow> (Inl e, st)
      | Inr u \<Rightarrow>
          (let includeInactive =
                 nullish (case inp of None \<Rightarrow> None | Some i \<Rightarrow> lg_includeInactive i) False;
               games = select_where (\<lambda>g. eq_sql (g_ownerId g) (Some (user_id u))) (MemoryGames st);
               filtered = (if includeInactive then games else filter (\<lambda>g. g_isActive g) games)
           in (Inr filtered, st)))"

definition listMyGames ::
  "ListMyGamesInput option \<Rightarrow> ActionAPIContext \<Rightarrow> store \<Rightarrow> (error + Game list) \<times> store" where
  "listMyGames = defineAction (\<lambda>_. []) listMyGames_handler"

section \<open>startSession\<close>

record StartSessionInput =
  ss_gameId :: int
  ss_difficulty :: "string option"
  ss_meta :: "json option"

text \<open>
  The condition shared by startSession and upsertPerformance:
  \<open>and(eq(id, gameId), or(eq(ownerId, user.id), eq(ownerId, null)))\<close>.
\<close>

definition accessible_game :: "int \<Rightarrow> string \<Rightarrow> Game \<Rightarrow> bool option" where
  "accessible_game gid uid g =
     and_sql (eq_sql (Some (g_id g)) (Some gid))
       (or_sql (eq_sql (g_ownerId g) (Some uid)) (eq_sql (g_ownerId g) None))"

definition startSession_handler ::
  "date \<Rightarrow> StartSessionInput \<Rightarrow> ActionAPIContext \<Rightarrow> store \<Rightarrow> (error + Session) \<times> store" where
  "startSession_handler now inp context st =
     (case requireUser context of
        Inl e \<Rightarrow> (Inl e, st)
      | Inr u \<Rightarrow>
          (let game = first (limit 1
                 (select_where (accessible_game (ss_gameId inp) (user_id u)) (MemoryGames st)))
           in if (case game of None \<Rightarrow> True | Some g \<Rightarrow> \<not> g_isActive g)
              then (Inl (ActionError NOT_FOUND ''Game not available.''), st)
              else
                (let session = \<lparr>s_id = next_id (map s_id (MemorySessions st)),
                                s_gameId = ss_gameId inp,
                                s_userId = user_id u,
                                s_status = in_progress,
                                s_totalScore = 0,
                                s_difficulty = ss_difficulty inp,
                                s_startedAt = now,
                                s_endedAt = None,
                                s_meta = json_column (ss_meta inp)\<rparr>
                 in (Inr session, st\<lparr>MemorySessions := MemorySessions st @ [session]\<rparr>))))"

definition startSession ::
  "date \<Rightarrow> StartSessionInput \<Rightarrow> ActionAPIContext \<Rightarrow> store \<Rightarrow> (error + Session) \<times> store" where
  "startSession now = defineAction (\<lambda>_. []) (startSession_handler now)"

section \<open>completeSession\<close>

record CompleteSessionInput =
  cs_id :: int
  cs_totalScore :: "int option"
  cs_difficulty :: "string option"
  cs_status :: "SessionStatus option"
  cs_meta :: "json option"

definition completeSession_input :: "CompleteSessionInput \<Rightarrow> string list" where
  "completeSession_input inp =
     issue (case cs_totalScore inp of None \<Rightarrow> True | Some n \<Rightarrow> 0 \<le> n) ''totalScore''"

definition owned_session :: "int \<Rightarrow> string \<Rightarrow> Session \<Rightarrow> bool option" where
  "owned_session sid uid s =
     and_sql (eq_sql (Some (s_id s)) (Some sid)) (eq_sql (Some (s_userId s)) (Some uid))"

definition completeSession_handler ::
  "date \<Rightarrow> CompleteSessionInput \<Rightarrow> ActionAPIContext \<Rightarrow> store
     \<Rightarrow> (error + Session option) \<times> store" where
  "completeSession_handler now inp context st =
     (case requireUser context of
        Inl e \<Rightarrow> (Inl e, st)
      | Inr u \<Rightarrow>
          (case read_rows session_reads_back (limit 1
                  (select_where (owned_session (cs_id inp) (user_id u)) (MemorySessions st))) of
             Inl e \<Rightarrow> (Inl e, st)
           | Inr found \<Rightarrow>
               (case first found of
                  None \<Rightarrow> (Inl (ActionError NOT_FOUND ''Session not found.''), st)
                | Some session \<Rightarrow>
                    (let (rows, returning) =
                           update_where
                             (\<lambda>s. s\<lparr>s_totalScore := nullish (cs_totalScore inp) (s_totalScore session),
                                     s_difficulty :=
                                       (case cs_difficulty inp of
                                          None \<Rightarrow> s_difficulty session
                                        | Some d \<Rightarrow> Some d),
                                     s_status := nullish (cs_status inp) completed,
                                     s_endedAt := Some now,
                                     s_meta := nullish_any (cs_meta inp) (s_meta session)\<rparr>)
                             (\<lambda>s. eq_sql (Some (s_id s)) (Some (cs_id inp)))
                             (MemorySessions st)
                     in (case read_rows session_reads_back returning of
                           Inl e \<Rightarrow> (Inl e, st\<lparr>MemorySessions := rows\<rparr>)
                         | Inr updated \<Rightarrow>
                             (Inr (first updated), st\<lparr>MemorySessions := rows\<rparr>))))))"

definition completeSession ::
  "date \<Rightarrow> CompleteSessionInput \<Rightarrow> ActionAPIContext \<Rightarrow> store
     \<Rightarrow> (error + Session option) \<times> store" where
  "completeSession now = defineAction completeSession_input (completeSession_handler now)"

section \<open>recordRound\<close>

text \<open>
  \<open>prompt\<close> is \<open>z.any()\<close> in the schema, which lets \<open>undefined\<close> and \<open>null\<close> through, and
  a non-optional json column in the table, which takes neither.
\<close>

record RecordRoundInput =
  rr_sessionId :: int
  rr_roundNumber :: "int option"
  rr_prompt :: "json option"
  rr_response :: "json option"
  rr_isCorrect :: "bool option"
  rr_score :: "int option"

definition recordRound_input :: "RecordRoundInput \<Rightarrow> string list" where
  "recordRound_input inp =
     issue (case rr_roundNumber inp of None \<Rightarrow> True | Some n \<Rightarrow> 0 < n) ''roundNumber'' @
     issue (case rr_score inp of None \<Rightarrow> True | Some n \<Rightarrow> 0 \<le> n) ''score''"

definition recordRound_handler ::
  "date \<Rightarrow> RecordRoundInput \<Rightarrow> ActionAPIContext \<Rightarrow> store \<Rightarrow> (error + Round) \<times> store" where
  "recordRound_handler now inp context st =
     (case requireUser context of
        Inl e \<Rightarrow> (Inl e, st)
      | Inr u \<Rightarrow>
          (case read_rows session_reads_back (limit 1
                  (select_where (owned_session (rr_sessionId inp) (user_id u))
                     (MemorySessions st))) of
             Inl e \<Rightarrow> (Inl e, st)
           | Inr found \<Rightarrow>
               (case first found of
                  None \<Rightarrow> (Inl (ActionError NOT_FOUND ''Session not found.''), st)
                | Some session \<Rightarrow>
                    (let round = \<lparr>r_id = next_id (map r_id (MemoryRounds st)),
                                  r_sessionId = rr_sessionId inp,
                                  r_roundNumber = nullish (rr_roundNumber inp) 1,
                                  r_prompt = json_column (rr_prompt inp),
                                  r_response = json_column (rr_response inp),
                                  r_isCorrect = nullish (rr_isCorrect inp) False,
                                  r_score = nullish (rr_score inp) 0,
                                  r_createdAt = now\<rparr>
                     in if r_prompt round = JNull
                        then (Inl (NotNullConstraint ''MemoryRounds.prompt''), st)
                        else
                          (case read_rows round_reads_back [round] of
                             Inl e \<Rightarrow> (Inl e, st\<lparr>MemoryRounds := MemoryRounds st @ [round]\<rparr>)
                           | Inr inserted \<Rightarrow>
                               (Inr round, st\<lparr>MemoryRounds := MemoryRounds st @ [round]\<rparr>))))))"

definition recordRound ::
  "date \<Rightarrow> RecordRoundInput \<Rightarrow> ActionAPIContext \<Rightarrow> store \<Rightarrow> (error + Round) \<times> store" where
  "recordRound now = defineAction recordRound_input (recordRound_handler now)"

section \<open>upsertPerformance\<close>

text \<open>
  The two scores are \<open>z.number()\<close>: numbers with a fraction are allowed. They are taken
  here as finite numbers.
\<close>

record UpsertPerformanceInput =
  up_gameId :: int
  up_totalSessions :: "int option"
  up_averageScore :: "real option"
  up_bestScore :: "real option"
  up_difficultyPreference :: "string option"

definition upsertPerformance_input :: "UpsertPerformanceInput \<Rightarrow> string list" where
  "upsertPerformance_input inp =
     issue (case up_totalSessions inp of None \<Rightarrow> True | Some n \<Rightarrow> 0 \<le> n) ''totalSessions'' @
     issue (case up_averageScore inp of None \<Rightarrow> True | Some x \<Rightarrow> 0 \<le> x) ''averageScore'' @
     issue (case up_bestScore inp of None \<Rightarrow> True | Some x \<Rightarrow> 0 \<le> x) ''bestScore''"

definition own_performance :: "int \<Rightarrow> string \<Rightarrow> Performance \<Rightarrow> bool option" where
  "own_performance gid uid p =
     and_sql (eq_sql (Some (p_gameId p)) (Some gid)) (eq_sql (Some (p_userId p)) (Some uid))"

text \<open>
  \<open>baseValues\<close>: every column of the row but its id. \<open>existing?.f\<close> is \<open>undefined\<close> when no
  row was found, and \<open>??\<close> then moves on to the default.
\<close>

definition baseValues ::
  "date \<Rightarrow> UpsertPerformanceInput \<Rightarrow> User \<Rightarrow> Performance option \<Rightarrow> int \<Rightarrow> Performance" where
  "baseValues now inp u existing i =
     \<lparr>p_id = i,
      p_userId = user_id u,
      p_gameId = up_gameId inp,
      p_totalSessions = nullish (up_totalSessions inp) (nullish (map_option p_totalSessions existing) 0),
      p_averageScore = nullish (up_averageScore inp) (nullish (map_option p_averageScore existing) 0),
      p_bestScore = nullish (up_bestScore inp) (nullish (map_option p_bestScore existing) 0),
      p_difficultyPreference =
        (case up_difficultyPreference inp of
           Some d \<Rightarrow> Some d
         | None \<Rightarrow> (case existing of None \<Rightarrow> None | Some e \<Rightarrow> p_difficultyPreference e)),
      p_updatedAt = now\<rparr>"

definition upsertPerformance_handler ::
  "date \<Rightarrow> UpsertPerformanceInput \<Rightarrow> ActionAPIContext \<Rightarrow> store
     \<Rightarrow> (error + Performance option) \<times> store" where
  "upsertPerformance_handler now inp context st =
     (case requireUser context of
        Inl e \<Rightarrow> (Inl e, st)
      | Inr u \<Rightarrow>
          (case first (limit 1
                  (select_where (accessible_game (up_gameId inp) (user_id u)) (MemoryGames st))) of
             None \<Rightarrow> (Inl (ActionError NOT_FOUND ''Game not found.''), st)
           | Some game \<Rightarrow>
               (case read_rows performance_reads_back (limit 1
                       (select_where (own_performance (up_gameId inp) (user_id u))
                          (MemoryPerformance st))) of
                  Inl e \<Rightarrow> (Inl e, st)
                | Inr found \<Rightarrow>
                    (case first found of
                       Some existing \<Rightarrow>
                         (let (rows, returning) =
                                update_where (\<lambda>p. baseValues now inp u (Some existing) (p_id p))
                                  (\<lambda>p. eq_sql (Some (p_id p)) (Some (p_id existing)))
                                  (MemoryPerformance st)
                          in (case read_rows performance_reads_back returning of
                                Inl e \<Rightarrow> (Inl e, st\<lparr>MemoryPerformance := rows\<rparr>)
                              | Inr updated \<Rightarrow>
                                  (Inr (first updated), st\<lparr>MemoryPerformance := rows\<rparr>)))
                     | None \<Rightarrow>
                         (let performance =
                                baseValues now inp u None
                                  (next_id (map p_id (MemoryPerformance st)))
                          in (case read_rows performance_reads_back [performance] of
                                Inl e \<Rightarrow>
                                  (Inl e,
                                   st\<lparr>MemoryPerformance := MemoryPerformance st @ [performance]\<rparr>)
                              | Inr inserted \<Rightarrow>
                                  (Inr (Some performance),
                                   st\<lparr>MemoryPerformance :=
                                        MemoryPerformance st @ [performance]\<rparr>)))))))"

definition upsertPerformance ::
  "date \<Rightarrow> UpsertPerformanceInput \<Rightarrow> ActionAPIContext \<Rightarrow> store
     \<Rightarrow> (error + Performance option) \<times> store" where
  "upsertPerformance now = defineAction upsertPerformance_input (upsertPerformance_handler now)"

section \<open>Sequences of requests\<close>

text \<open>The seven actions of \<open>server\<close>, each with its input.\<close>

datatype action =
    CreateGame CreateGameInput
  | UpdateGame UpdateGameInput
  | ListMyGames "ListMyGamesInput option"
  | StartSession StartSessionInput
  | CompleteSession CompleteSessionInput
  | RecordRound RecordRoundInput
  | UpsertPerformance UpsertPerformanceInput

text \<open>The store after one request: the time of the request, its context, the action called.\<close>

fun perform :: "date \<times> ActionAPIContext \<times> action \<Rightarrow> store \<Rightarrow> store" where
  "perform (now, context, CreateGame inp) st = snd (createGame now inp context st)"
| "perform (now, context, UpdateGame inp) st = snd (updateGame inp context st)"
| "perform (now, context, ListMyGames inp) st = snd (listMyGames inp context st)"
| "perform (now, context, StartSession inp) st = snd (startSession now inp context st)"
| "perform (now, context, CompleteSession inp) st = snd (completeSession now inp context st)"
| "perform (now, context, RecordRound inp) st = snd (recordRound now inp context st)"
| "perform (now, context, UpsertPerformance inp) st = snd (upsertPerformance now inp context st)"

text \<open>Requests are served one after the other.\<close>

definition run :: "(date \<times> ActionAPIContext \<times> action) list \<Rightarrow> store \<Rightarrow> store" where
  "run requests st = fold perform requests st"

section \<open>Keys\<close>


text \<open>Every table has its ids distinct: the primary keys.\<close>

definition primary_keys :: "store \<Rightarrow> bool" where
  "primary_keys st \<longleftrightarrow>
     distinct (map g_id (MemoryGames st)) \<and> distinct (map s_id (MemorySessions st)) \<and>
     distinct (map r_id (MemoryRounds st)) \<and> distinct (map p_id (MemoryPerformance st))"

section \<open>Example stores\<close>

definition game1 :: Game where
  "game1 = \<lparr>g_id = 1, g_ownerId = Some ''alice'', g_name = ''Recall'', g_description = None,
             g_gameType = ''sequence'', g_difficultyLevels = JNull, g_isActive = True,
             g_createdAt = 0\<rparr>"

definition game2 :: Game where
  "game2 = \<lparr>g_id = 2, g_ownerId = None, g_name = ''Shared'', g_description = None,
             g_gameType = ''pattern'', g_difficultyLevels = JNull, g_isActive = True,
             g_createdAt = 0\<rparr>"

definition game3 :: Game where
  "game3 = \<lparr>g_id = 3, g_ownerId = Some ''bob'', g_name = ''Words'', g_description = None,
             g_gameType = ''words'', g_difficultyLevels = JNull, g_isActive = True,
             g_createdAt = 0\<rparr>"

definition game4 :: Game where
  "game4 = \<lparr>g_id = 4, g_ownerId = Some ''alice'', g_name = ''Old'', g_description = None,
             g_gameType = ''words'', g_difficultyLevels = JNull, g_isActive = False,
             g_createdAt = 0\<rparr>"

definition session1 :: Session where
  "session1 = \<lparr>s_id = 1, s_gameId = 1, s_userId = ''alice'', s_status = abandoned,
                s_totalScore = 7, s_difficulty = Some ''hard'', s_startedAt = 100,
                s_endedAt = None, s_meta = JStr ''m''\<rparr>"

definition session2 :: Session where
  "session2 = \<lparr>s_id = 2, s_gameId = 1, s_userId = ''alice'', s_status = completed,
                s_totalScore = 10, s_difficulty = None, s_startedAt = 200,
                s_endedAt = Some 300, s_meta = JNull\<rparr>"

definition catalog :: store where
  "catalog = empty_store\<lparr>MemoryGames := [game1, game2, game3, game4]\<rparr>"

definition playing :: store where
  "playing = catalog\<lparr>MemorySessions := [session1, session2]\<rparr>"

text \<open>
  Alice creates a game and reports on it twice; Bob then reports on the same game, which is
  not his.
\<close>

definition season :: "(date \<times> ActionAPIContext \<times> action) list" where
  "season =
     [(1, signed_in ''alice'',
         CreateGame \<lparr>cg_name = ''Recall'', cg_description = None, cg_gameType = ''sequence'',
                     cg_difficultyLevels = None, cg_isActive = None\<rparr>),
      (2, signed_in ''alice'',
         UpsertPerformance \<lparr>up_gameId = 1, up_totalSessions = Some 5, up_averageScore = None,
                            up_bestScore = None, up_difficultyPreference = None\<rparr>),
      (3, signed_in ''alice'',
         UpsertPerformance \<lparr>up_gameId = 1, up_totalSessions = None, up_averageScore = None,
                            up_bestScore = Some 90, up_difficultyPreference = None\<rparr>),
      (4, signed_in ''bob'',
         UpsertPerformance \<lparr>up_gameId = 1, up_totalSessions = Some 1, up_averageScore = None,
                            up_bestScore = None, up_difficultyPreference = None\<rparr>)]"

section \<open>Queries as list searches\<close>

lemma requireUser_signed_in: "requireUser (signed_in u) = Inr \<lparr>user_id = u\<rparr>"
  by (simp add: requireUser_def signed_in_def)

lemma and_sql_Some [simp]: "and_sql (Some a) (Some b) = Some (a \<and> b)"
  by (cases a; cases b) simp_all

lemma and_sql_None [simp]: "and_sql (Some a) None = (if a then None else Some False)"
  by (cases a) simp_all

lemma or_sql_None [simp]: "or_sql (Some a) None = (if a then Some True else None)"
  by (cases a) simp_all

lemma nullish_case: "nullish x d = (case x of None \<Rightarrow> d | Some v \<Rightarrow> v)"
  by (cases x) simp_all

lemma first_limit_select:
  "first (limit (Suc n) (select_where c rows)) = find (\<lambda>r. c r = Some True) rows"
  by (induction rows) (simp_all add: limit_def select_where_def)

lemma owned_game_iff:
  "owned_game gid uid g = Some True \<longleftrightarrow> g_id g = gid \<and> g_ownerId g = Some uid"
  by (cases "g_ownerId g") (auto simp: owned_game_def)

text \<open>
  The second disjunct of the condition, \<open>eq(ownerId, null)\<close>, is never true, so the
  condition selects the games of the caller only.
\<close>

lemma accessible_game_iff:
  "accessible_game gid uid g = Some True \<longleftrightarrow> g_id g = gid \<and> g_ownerId g = Some uid"
  by (cases "g_ownerId g") (auto simp: accessible_game_def)

lemma owned_session_iff:
  "owned_session sid uid s = Some True \<longleftrightarrow> s_id s = sid \<and> s_userId s = uid"
  by (auto simp: owned_session_def)

lemma own_performance_iff:
  "own_performance gid uid p = Some True \<longleftrightarrow> p_gameId p = gid \<and> p_userId p = uid"
  by (auto simp: own_performance_def)

lemma find_owned_game:
  "first (limit (Suc n) (select_where (owned_game gid u) games))
     = find (\<lambda>g. g_id g = gid \<and> g_ownerId g = Some u) games"
  by (simp add: first_limit_select owned_game_iff)

lemma find_accessible_game:
  "first (limit (Suc n) (select_where (accessible_game gid u) games))
     = find (\<lambda>g. g_id g = gid \<and> g_ownerId g = Some u) games"
  by (simp add: first_limit_select accessible_game_iff)

lemma find_owned_session:
  "first (limit (Suc n) (select_where (owned_session sid u) sessions))
     = find (\<lambda>s. s_id s = sid \<and> s_userId s = u) sessions"
  by (simp add: first_limit_select owned_session_iff)

lemma find_own_performance:
  "first (limit (Suc n) (select_where (own_performance gid u) rows))
     = find (\<lambda>p. p_gameId p = gid \<and> p_userId p = u) rows"
  by (simp add: first_limit_select own_performance_iff)

lemma find_append_row:
  "find P (xs @ ys) = (case find P xs of None \<Rightarrow> find P ys | Some x \<Rightarrow> Some x)"
  by (induction xs) simp_all

lemma first_map_filter: "first (map f (filter P xs)) = map_option f (find P xs)"
  by (induction xs) simp_all

subsection \<open>Tables with a primary key\<close>

lemma find_distinct_key:
  assumes "distinct (map f xs)" and "x \<in> set xs" and "P x" and "\<forall>y. P y \<longrightarrow> f y = f x"
  shows "find P xs = Some x"
  using assms(1,2)
proof (induction xs)
  case Nil
  then show ?case by simp
next
  case (Cons a xs)
  show ?case
  proof (cases "a = x")
    case True
    then show ?thesis using assms(3) by simp
  next
    case False
    have x: "x \<in> set xs" using Cons.prems(2) False by simp
    have d: "distinct (map f xs)" using Cons.prems(1) by simp
    have "f a \<notin> f ` set xs" using Cons.prems(1) by simp
    then have "f a \<noteq> f x" using x by blast
    then have "\<not> P a" using assms(4) by blast
    then show ?thesis using Cons.IH [OF d x] by simp
  qed
qed

lemma find_by_id:
  assumes "distinct (map f xs)" and "x \<in> set xs" and "P x"
  shows "find (\<lambda>y. f y = f x \<and> P y) xs = Some x"
  using assms by (intro find_distinct_key [where f = f]) simp_all

lemma filter_by_id:
  assumes "distinct (map f xs)" and "x \<in> set xs"
  shows "filter (\<lambda>y. f y = f x) xs = [x]"
  using assms
proof (induction xs)
  case Nil
  then show ?case by simp
next
  case (Cons a xs)
  show ?case
  proof (cases "a = x")
    case True
    have "f x \<notin> f ` set xs" using Cons.prems(1) True by simp
    then have "filter (\<lambda>y. f y = f x) xs = []" by (force simp: filter_empty_conv image_iff)
    then show ?thesis using True by simp
  next
    case False
    have x: "x \<in> set xs" using Cons.prems(2) False by simp
    have "f a \<notin> f ` set xs" using Cons.prems(1) by simp
    then have "f a \<noteq> f x" using x by blast
    then show ?thesis using Cons.IH [OF _ x] Cons.prems(1) by simp
  qed
qed

lemma next_id_fresh: "i \<in> set ids \<Longrightarrow> i < next_id ids"
proof (cases ids)
  case Nil
  assume "i \<in> set ids"
  with Nil show ?thesis by simp
next
  case (Cons x xs)
  assume "i \<in> set ids"
  then have "i \<le> Max (set (x # xs))" unfolding Cons by (intro Max_ge) simp_all
  then have "i \<le> fold max xs x" by (simp only: Max.set_eq_fold)
  then show ?thesis by (simp add: Cons)
qed

lemma next_id_notin: "next_id ids \<notin> set ids"
  using next_id_fresh by fastforce

lemma distinct_append_fresh:
  "distinct (map f xs) \<Longrightarrow> f x = next_id (map f xs) \<Longrightarrow> distinct (map f (xs @ [x]))"
  using next_id_notin [of "map f xs"] by simp

subsection \<open>Rows that come back\<close>

lemma safe_reads_back: "safe_integer n \<Longrightarrow> reads_back n"
  by (simp add: reads_back_def)

lemma read_rows_ok: "list_all ok rows \<Longrightarrow> read_rows ok rows = Inr rows"
  by (simp add: read_rows_def)

lemma read_rows_Inr: "read_rows ok rows = Inr found \<Longrightarrow> found = rows"
  by (simp add: read_rows_def split: if_splits)

lemma read_rows_Nil [simp]: "read_rows ok [] = Inr []"
  by (simp add: read_rows_def)

lemma limit_select_find:
  "limit (Suc 0) (select_where c rows) =
     (case find (\<lambda>r. c r = Some True) rows of None \<Rightarrow> [] | Some r \<Rightarrow> [r])"
  by (induction rows) (simp_all add: limit_def select_where_def)

section \<open>What each action leaves alone\<close>

lemma createGame_frame:
  "MemorySessions (snd (createGame now inp c st)) = MemorySessions st"
  "MemoryRounds (snd (createGame now inp c st)) = MemoryRounds st"
  "MemoryPerformance (snd (createGame now inp c st)) = MemoryPerformance st"
  by (simp_all add: createGame_def createGame_handler_def defineAction_def Let_def
      split: sum.splits list.splits)

lemma updateGame_frame:
  "MemorySessions (snd (updateGame inp c st)) = MemorySessions st"
  "MemoryRounds (snd (updateGame inp c st)) = MemoryRounds st"
  "MemoryPerformance (snd (updateGame inp c st)) = MemoryPerformance st"
  by (simp_all add: updateGame_def updateGame_handler_def defineAction_def Let_def update_where_def
      split: sum.splits list.splits option.splits)

lemma listMyGames_frame: "snd (listMyGames inp c st) = st"
  by (simp add: listMyGames_def listMyGames_handler_def defineAction_def Let_def
      split: sum.splits)

lemma startSession_frame:
  "MemoryGames (snd (startSession now inp c st)) = MemoryGames st"
  "MemoryRounds (snd (startSession now inp c st)) = MemoryRounds st"
  "MemoryPerformance (snd (startSession now inp c st)) = MemoryPerformance st"
  by (simp_all add: startSession_def startSession_handler_def defineAction_def Let_def
      split: sum.splits)

lemma completeSession_frame:
  "MemoryGames (snd (completeSession now inp c st)) = MemoryGames st"
  "MemoryRounds (snd (completeSession now inp c st)) = MemoryRounds st"
  "MemoryPerformance (snd (completeSession now inp c st)) = MemoryPerformance st"
  by (simp_all add: completeSession_def completeSession_handler_def defineAction_def Let_def
      update_where_def split: sum.splits list.splits option.splits)

lemma recordRound_frame:
  "MemoryGames (snd (recordRound now inp c st)) = MemoryGames st"
  "MemorySessions (snd (recordRound now inp c st)) = MemorySessions st"
  "MemoryPerformance (snd (recordRound now inp c st)) = MemoryPerformance st"
  by (simp_all add: recordRound_def recordRound_handler_def defineAction_def Let_def
      split: sum.splits list.splits option.splits)

lemma upsertPerformance_frame:
  "MemoryGames (snd (upsertPerformance now inp c st)) = MemoryGames st"
  "MemorySessions (snd (upsertPerformance now inp c st)) = MemorySessions st"
  "MemoryRounds (snd (upsertPerformance now inp c st)) = MemoryRounds st"
  by (simp_all add: upsertPerformance_def upsertPerformance_handler_def defineAction_def Let_def
      update_where_def split: sum.splits list.splits option.splits)

section \<open>listMyGames: the games of the caller\<close>

text \<open>
  C5. For a signed-in caller \<open>u\<close>, listMyGames returns a list that contains a game \<open>g\<close>
  exactly when \<open>g\<close> is a row of MemoryGames whose owner is \<open>u\<close> and either includeInactive
  was passed as true or \<open>g\<close> is active. A game of another user or a system-owned game
  (owner absent) is therefore never listed. The store is left as it was.
\<close>

theorem listMyGames_scope:
  "\<exists>gs. listMyGames inp (signed_in u) st = (Inr gs, st) \<and>
     (\<forall>g. g \<in> set gs \<longleftrightarrow>
        g \<in> set (MemoryGames st) \<and> g_ownerId g = Some u \<and>
        ((\<exists>i. inp = Some i \<and> lg_includeInactive i = Some True) \<or> g_isActive g))"
proof -
  have own: "\<And>g. eq_sql (g_ownerId g) (Some u) = Some True \<longleftrightarrow> g_ownerId g = Some u"
    by (case_tac "g_ownerId g") simp_all
  show ?thesis
  proof (cases inp)
    case None
    then show ?thesis
      by (auto simp: listMyGames_def defineAction_def listMyGames_handler_def
          requireUser_signed_in select_where_def own)
  next
    case (Some i)
    then show ?thesis
      by (cases "lg_includeInactive i"; cases "the (lg_includeInactive i)")
        (auto simp: listMyGames_def defineAction_def listMyGames_handler_def
          requireUser_signed_in select_where_def own)
  qed
qed

theorem listMyGames_scope_witness:
  "\<exists>gs. listMyGames None (signed_in ''alice'') catalog = (Inr gs, catalog) \<and>
     game1 \<in> set gs \<and> game2 \<notin> set gs \<and> game3 \<notin> set gs \<and> game4 \<notin> set gs"
proof -
  from listMyGames_scope [of None "''alice''" catalog]
  obtain gs where r: "listMyGames None (signed_in ''alice'') catalog = (Inr gs, catalog)"
    and m: "\<forall>g. g \<in> set gs \<longleftrightarrow>
        g \<in> set (MemoryGames catalog) \<and> g_ownerId g = Some ''alice'' \<and> g_isActive g"
    by auto
  have "game1 \<in> set gs" and "game2 \<notin> set gs" and "game3 \<notin> set gs" and "game4 \<notin> set gs"
    by (simp_all add: m catalog_def empty_store_def game1_def game2_def game3_def game4_def)
  with r show ?thesis by blast
qed

section \<open>updateGame: not found, and nothing to update\<close>

lemma set_game_name:
  "g_name (set_game (copy_defined (rest_entries inp)) g)
     = (case ug_name inp of None \<Rightarrow> g_name g | Some n \<Rightarrow> n)"
  by (cases "ug_name inp"; cases "ug_description inp"; cases "ug_gameType inp";
      cases "ug_difficultyLevels inp"; cases "ug_isActive inp")
    (simp_all add: set_game_def rest_entries_def)

lemma set_game_gameType:
  "g_gameType (set_game (copy_defined (rest_entries inp)) g)
     = (case ug_gameType inp of None \<Rightarrow> g_gameType g | Some t \<Rightarrow> t)"
  by (cases "ug_name inp"; cases "ug_description inp"; cases "ug_gameType inp";
      cases "ug_difficultyLevels inp"; cases "ug_isActive inp")
    (simp_all add: set_game_def rest_entries_def)

lemma set_game_id:
  "g_id (set_game (copy_defined (rest_entries inp)) g) = g_id g"
  "g_ownerId (set_game (copy_defined (rest_entries inp)) g) = g_ownerId g"
  by (cases "ug_name inp"; cases "ug_description inp"; cases "ug_gameType inp";
      cases "ug_difficultyLevels inp"; cases "ug_isActive inp";
      simp add: set_game_def rest_entries_def)+

text \<open>
  C8. For a signed-in caller \<open>u\<close> and an input that parses: when no row of MemoryGames has
  both the id of the input and owner \<open>u\<close> (no game has that id, or every game that has it
  belongs to someone else or to nobody), updateGame fails with the one error
  NOT_FOUND "Game not found." and the store is unchanged.
\<close>

theorem updateGame_not_found:
  assumes "updateGame_input inp = []"
    and "\<forall>g \<in> set (MemoryGames st). g_id g = ug_id inp \<longrightarrow> g_ownerId g \<noteq> Some u"
  shows "updateGame inp (signed_in u) st = (Inl (ActionError NOT_FOUND ''Game not found.''), st)"
proof -
  have "find (\<lambda>g. g_id g = ug_id inp \<and> g_ownerId g = Some u) (MemoryGames st) = None"
    using assms(2) by (auto simp: find_None_iff)
  then show ?thesis
    using assms(1)
    by (simp add: updateGame_def defineAction_def updateGame_handler_def
        requireUser_signed_in find_owned_game)
qed

text \<open>Id 7 does not exist; id 1 exists and belongs to alice. Bob gets the same answer.\<close>

theorem updateGame_not_found_witness:
  "updateGame \<lparr>ug_id = 7, ug_name = Some ''New'', ug_description = None, ug_gameType = None,
       ug_difficultyLevels = None, ug_isActive = None\<rparr> (signed_in ''bob'') catalog
     = (Inl (ActionError NOT_FOUND ''Game not found.''), catalog)
   \<and> updateGame \<lparr>ug_id = 1, ug_name = Some ''New'', ug_description = None, ug_gameType = None,
       ug_difficultyLevels = None, ug_isActive = None\<rparr> (signed_in ''bob'') catalog
     = (Inl (ActionError NOT_FOUND ''Game not found.''), catalog)"
  using updateGame_not_found [of "\<lparr>ug_id = 7, ug_name = Some ''New'', ug_description = None,
       ug_gameType = None, ug_difficultyLevels = None, ug_isActive = None\<rparr>" catalog "''bob''"]
    updateGame_not_found [of "\<lparr>ug_id = 1, ug_name = Some ''New'', ug_description = None,
       ug_gameType = None, ug_difficultyLevels = None, ug_isActive = None\<rparr>" catalog "''bob''"]
  by (simp add: catalog_def empty_store_def game1_def game2_def game3_def game4_def
      updateGame_input_def issue_def)

text \<open>
  C7. For a game \<open>g\<close> of the store that the caller owns (ids being the primary key of the
  table), updateGame with the id of \<open>g\<close> and none of name, description, gameType,
  difficultyLevels, isActive returns \<open>g\<close> itself and the store it was given.
\<close>

theorem updateGame_no_fields:
  assumes "distinct (map g_id (MemoryGames st))"
    and "g \<in> set (MemoryGames st)" and "g_ownerId g = Some u"
    and "ug_id inp = g_id g"
    and "ug_name inp = None" and "ug_description inp = None" and "ug_gameType inp = None"
    and "ug_difficultyLevels inp = None" and "ug_isActive inp = None"
  shows "updateGame inp (signed_in u) st = (Inr (Some g), st)"
proof -
  have "find (\<lambda>y. g_id y = g_id g \<and> g_ownerId y = Some u) (MemoryGames st) = Some g"
    using assms(1-3) by (rule find_by_id)
  moreover have "copy_defined (rest_entries inp) = []"
    using assms(5-9) by (simp add: rest_entries_def)
  moreover have "updateGame_input inp = []"
    using assms(5) by (simp add: updateGame_input_def issue_def)
  ultimately show ?thesis
    using assms(4)
    by (simp add: updateGame_def defineAction_def updateGame_handler_def
        requireUser_signed_in find_owned_game)
qed

theorem updateGame_no_fields_witness:
  "updateGame \<lparr>ug_id = 1, ug_name = None, ug_description = None, ug_gameType = None,
       ug_difficultyLevels = None, ug_isActive = None\<rparr> (signed_in ''alice'') catalog
   = (Inr (Some game1), catalog)"
  using updateGame_no_fields [of catalog game1 "''alice''"
      "\<lparr>ug_id = 1, ug_name = None, ug_description = None, ug_gameType = None,
       ug_difficultyLevels = None, ug_isActive = None\<rparr>"]
  by (simp add: catalog_def empty_store_def game1_def game2_def game3_def game4_def)

section \<open>startSession: which games are available\<close>

text \<open>
  When a game of the store has the id asked for, the caller as its owner and is active,
  startSession appends a session for the caller, in progress, started at the time of the
  call.
\<close>

lemma startSession_owned:
  assumes "distinct (map g_id (MemoryGames st))"
    and "g \<in> set (MemoryGames st)" and "g_ownerId g = Some u" and "g_isActive g"
    and "ss_gameId inp = g_id g"
  shows "\<exists>s. startSession now inp (signed_in u) st
               = (Inr s, st\<lparr>MemorySessions := MemorySessions st @ [s]\<rparr>) \<and>
             s_id s \<notin> s_id ` set (MemorySessions st) \<and>
             s_gameId s = g_id g \<and> s_userId s = u \<and> s_status s = in_progress \<and>
             s_startedAt s = now"
proof -
  have f: "find (\<lambda>y. g_id y = g_id g \<and> g_ownerId y = Some u) (MemoryGames st) = Some g"
    using assms(1-3) by (rule find_by_id)
  have fresh: "next_id (map s_id (MemorySessions st)) \<notin> s_id ` set (MemorySessions st)"
    using next_id_notin [of "map s_id (MemorySessions st)"] by simp
  show ?thesis
    using assms(4,5) f fresh
    by (simp add: startSession_def defineAction_def startSession_handler_def
        requireUser_signed_in find_accessible_game Let_def)
qed

text \<open>
  When no game of the store has both the id asked for and the caller as its owner,
  startSession fails. A game without an owner is such a game.
\<close>

lemma startSession_not_owned:
  assumes "\<forall>g \<in> set (MemoryGames st). g_id g = ss_gameId inp \<longrightarrow> g_ownerId g \<noteq> Some u"
  shows "startSession now inp (signed_in u) st
           = (Inl (ActionError NOT_FOUND ''Game not available.''), st)"
proof -
  have "find (\<lambda>g. g_id g = ss_gameId inp \<and> g_ownerId g = Some u) (MemoryGames st) = None"
    using assms by (auto simp: find_None_iff)
  then show ?thesis
    by (simp add: startSession_def defineAction_def startSession_handler_def
        requireUser_signed_in find_accessible_game)
qed

text \<open>
  C1. Game 2 of the catalog is active and has no owner. Alice asks for a session of it and
  gets NOT_FOUND "Game not available."; no session is stored.
\<close>

theorem startSession_system_owned_not_available:
  "game2 \<in> set (MemoryGames catalog) \<and> g_id game2 = 2 \<and> g_ownerId game2 = None \<and>
   g_isActive game2 \<and>
   startSession 5 \<lparr>ss_gameId = 2, ss_difficulty = None, ss_meta = None\<rparr>
     (signed_in ''alice'') catalog
   = (Inl (ActionError NOT_FOUND ''Game not available.''), catalog)"
  by (simp add: startSession_def defineAction_def startSession_handler_def
      requireUser_signed_in accessible_game_def limit_def select_where_def
      catalog_def empty_store_def game1_def game2_def game3_def game4_def)

section \<open>completeSession: what is stamped and what is kept\<close>












text \<open>
  A total that is not a safe integer is written, and the call then fails on reading the row
  back; the session it leaves cannot be looked up again.
\<close>

lemma completeSession_unsafe_total:
  "completeSession 500 \<lparr>cs_id = 2, cs_totalScore = Some (2 ^ 53), cs_difficulty = None,
        cs_status = None, cs_meta = None\<rparr> (signed_in ''alice'') playing
     = (Inl RangeError,
        playing\<lparr>MemorySessions :=
          [session1, session2\<lparr>s_totalScore := 2 ^ 53, s_endedAt := Some 500\<rparr>]\<rparr>)"
  by (simp add: completeSession_def defineAction_def completeSession_input_def issue_def
      completeSession_handler_def requireUser_signed_in owned_session_def limit_def
      select_where_def update_where_def read_rows_def session_reads_back_def reads_back_def
      safe_integer_def playing_def catalog_def empty_store_def session1_def session2_def)

lemma completeSession_unreadable_session:
  "completeSession 600 \<lparr>cs_id = 2, cs_totalScore = None, cs_difficulty = None,
        cs_status = None, cs_meta = None\<rparr> (signed_in ''alice'')
        (playing\<lparr>MemorySessions :=
          [session1, session2\<lparr>s_totalScore := 2 ^ 53, s_endedAt := Some 500\<rparr>]\<rparr>)
     = (Inl RangeError,
        playing\<lparr>MemorySessions :=
          [session1, session2\<lparr>s_totalScore := 2 ^ 53, s_endedAt := Some 500\<rparr>]\<rparr>)"
  by (simp add: completeSession_def defineAction_def completeSession_input_def issue_def
      completeSession_handler_def requireUser_signed_in owned_session_def limit_def
      select_where_def update_where_def read_rows_def session_reads_back_def reads_back_def
      safe_integer_def playing_def catalog_def empty_store_def session1_def session2_def)

section \<open>recordRound: no status gate\<close>


text \<open>
  A prompt that is null, or absent, passes the schema and is refused by the table; nothing is
  written.
\<close>

lemma recordRound_null_prompt:
  "recordRound 600 \<lparr>rr_sessionId = 1, rr_roundNumber = None, rr_prompt = Some JNull,
       rr_response = None, rr_isCorrect = None, rr_score = None\<rparr> (signed_in ''alice'') playing
     = (Inl (NotNullConstraint ''MemoryRounds.prompt''), playing)"
  by (simp add: recordRound_def defineAction_def recordRound_input_def issue_def
      recordRound_handler_def requireUser_signed_in owned_session_def limit_def
      select_where_def read_rows_def session_reads_back_def reads_back_def
      safe_integer_def playing_def catalog_def empty_store_def session1_def session2_def)


section \<open>upsertPerformance: which rows it writes\<close>

lemma upsertPerformance_rows:
  "MemoryPerformance (snd (upsertPerformance now inp c st)) = MemoryPerformance st
   \<or> (\<exists>U. requireUser c = Inr U
        \<and> find (\<lambda>p. p_gameId p = up_gameId inp \<and> p_userId p = user_id U) (MemoryPerformance st) = None
        \<and> MemoryPerformance (snd (upsertPerformance now inp c st))
            = MemoryPerformance st @ [baseValues now inp U None (next_id (map p_id (MemoryPerformance st)))])
   \<or> (\<exists>U e. requireUser c = Inr U
        \<and> find (\<lambda>p. p_gameId p = up_gameId inp \<and> p_userId p = user_id U) (MemoryPerformance st) = Some e
        \<and> MemoryPerformance (snd (upsertPerformance now inp c st))
            = map (\<lambda>p. if p_id p = p_id e then baseValues now inp U (Some e) (p_id p) else p)
                (MemoryPerformance st))"
proof (cases "requireUser c")
  case (Inl e)
  then show ?thesis
    by (simp add: upsertPerformance_def upsertPerformance_handler_def defineAction_def
        split: list.splits)
next
  case (Inr U)
  let ?found = "find (\<lambda>p. p_gameId p = up_gameId inp \<and> p_userId p = user_id U) (MemoryPerformance st)"
  have look: "limit (Suc 0) (select_where (own_performance (up_gameId inp) (user_id U))
                 (MemoryPerformance st))
              = (case ?found of None \<Rightarrow> [] | Some r \<Rightarrow> [r])"
    by (simp add: limit_select_find own_performance_iff)
  show ?thesis
  proof (cases ?found)
    case None
    then show ?thesis
      using Inr look
      by (simp add: upsertPerformance_def upsertPerformance_handler_def defineAction_def Let_def
          read_rows_def split: list.splits option.splits)
  next
    case (Some e)
    then show ?thesis
      using Inr look
      by (simp add: upsertPerformance_def upsertPerformance_handler_def defineAction_def Let_def
          read_rows_def update_where_def split: list.splits option.splits)
  qed
qed

lemma baseValues_sel [simp]:
  "p_id (baseValues now inp U e i) = i"
  "p_userId (baseValues now inp U e i) = user_id U"
  "p_gameId (baseValues now inp U e i) = up_gameId inp"
  "p_updatedAt (baseValues now inp U e i) = now"
  by (simp_all add: baseValues_def)

lemma baseValues_merge:
  "p_totalSessions (baseValues now inp U existing i) =
     (case up_totalSessions inp of Some v \<Rightarrow> v
      | None \<Rightarrow> (case existing of Some e \<Rightarrow> p_totalSessions e | None \<Rightarrow> 0))"
  "p_averageScore (baseValues now inp U existing i) =
     (case up_averageScore inp of Some v \<Rightarrow> v
      | None \<Rightarrow> (case existing of Some e \<Rightarrow> p_averageScore e | None \<Rightarrow> 0))"
  "p_bestScore (baseValues now inp U existing i) =
     (case up_bestScore inp of Some v \<Rightarrow> v
      | None \<Rightarrow> (case existing of Some e \<Rightarrow> p_bestScore e | None \<Rightarrow> 0))"
  "p_difficultyPreference (baseValues now inp U existing i) =
     (case up_difficultyPreference inp of Some d \<Rightarrow> Some d
      | None \<Rightarrow> (case existing of Some e \<Rightarrow> p_difficultyPreference e | None \<Rightarrow> None))"
  by (simp_all add: baseValues_def nullish_case split: option.splits)

section \<open>One performance row for a user and a game\<close>









section \<open>upsertPerformance: the merge\<close>

lemma baseValues_reads_back:
  assumes "case existing of None \<Rightarrow> True | Some e \<Rightarrow> performance_reads_back e"
    and "case up_totalSessions inp of None \<Rightarrow> True | Some n \<Rightarrow> safe_integer n"
    and "case up_averageScore inp of None \<Rightarrow> True | Some x \<Rightarrow> number_reads_back x"
    and "case up_bestScore inp of None \<Rightarrow> True | Some x \<Rightarrow> number_reads_back x"
  shows "performance_reads_back (baseValues now inp U existing i)"
proof -
  have z: "reads_back 0" "number_reads_back 0"
    by (simp_all add: reads_back_def safe_integer_def number_reads_back_def)
  have "reads_back (p_totalSessions (baseValues now inp U existing i))"
    using assms(1,2) z
    by (cases "up_totalSessions inp"; cases existing)
      (simp_all add: baseValues_merge performance_reads_back_def safe_reads_back)
  moreover have "number_reads_back (p_averageScore (baseValues now inp U existing i))"
    using assms(1,3) z
    by (cases "up_averageScore inp"; cases existing)
      (simp_all add: baseValues_merge performance_reads_back_def)
  moreover have "number_reads_back (p_bestScore (baseValues now inp U existing i))"
    using assms(1,4) z
    by (cases "up_bestScore inp"; cases existing)
      (simp_all add: baseValues_merge performance_reads_back_def)
  ultimately show ?thesis by (simp add: performance_reads_back_def)
qed

text \<open>
  For a game that the caller owns, rows of MemoryPerformance that read back and numbers in
  the input that read back, upsertPerformance returns the merged row: each number is the
  value supplied, else the value of the row found for the caller and the game, else 0;
  difficultyPreference is the value supplied, else that of the row found; updatedAt is the
  time of the call.
\<close>

lemma upsertPerformance_merge_owned:
  assumes "\<exists>g \<in> set (MemoryGames st). g_id g = up_gameId inp \<and> g_ownerId g = Some u"
    and "upsertPerformance_input inp = []"
    and "list_all performance_reads_back (MemoryPerformance st)"
    and "case up_totalSessions inp of None \<Rightarrow> True | Some n \<Rightarrow> safe_integer n"
    and "case up_averageScore inp of None \<Rightarrow> True | Some x \<Rightarrow> number_reads_back x"
    and "case up_bestScore inp of None \<Rightarrow> True | Some x \<Rightarrow> number_reads_back x"
  shows "\<exists>p st'. upsertPerformance now inp (signed_in u) st = (Inr (Some p), st') \<and>
           p \<in> set (MemoryPerformance st') \<and>
           p = baseValues now inp \<lparr>user_id = u\<rparr>
                 (find (\<lambda>p. p_gameId p = up_gameId inp \<and> p_userId p = u) (MemoryPerformance st))
                 (p_id p)"
proof -
  let ?U = "\<lparr>user_id = u\<rparr>"
  let ?found = "find (\<lambda>p. p_gameId p = up_gameId inp \<and> p_userId p = u) (MemoryPerformance st)"
  have "find (\<lambda>g. g_id g = up_gameId inp \<and> g_ownerId g = Some u) (MemoryGames st) \<noteq> None"
    using assms(1) by (auto simp: find_None_iff)
  then obtain g where
    g: "find (\<lambda>g. g_id g = up_gameId inp \<and> g_ownerId g = Some u) (MemoryGames st) = Some g"
    by blast
  have look: "limit (Suc 0) (select_where (own_performance (up_gameId inp) u)
                 (MemoryPerformance st))
              = (case ?found of None \<Rightarrow> [] | Some r \<Rightarrow> [r])"
    by (simp add: limit_select_find own_performance_iff)
  have ex: "case ?found of None \<Rightarrow> True | Some e \<Rightarrow> performance_reads_back e"
    using assms(3) by (auto simp: find_Some_iff list_all_iff split: option.splits)
  have rb: "\<And>i. performance_reads_back (baseValues now inp ?U ?found i)"
    using ex assms(4-6) by (rule baseValues_reads_back)
  show ?thesis
  proof (cases ?found)
    case None
    let ?p = "baseValues now inp ?U None (next_id (map p_id (MemoryPerformance st)))"
    have "performance_reads_back ?p" using rb [of "next_id (map p_id (MemoryPerformance st))"] None by simp
    then have "upsertPerformance now inp (signed_in u) st
         = (Inr (Some ?p), st\<lparr>MemoryPerformance := MemoryPerformance st @ [?p]\<rparr>)"
      using assms(2) g look None
      by (simp add: upsertPerformance_def defineAction_def upsertPerformance_handler_def
          requireUser_signed_in find_accessible_game read_rows_def Let_def)
    then show ?thesis
      unfolding None by (intro exI conjI, assumption) simp_all
  next
    case (Some e)
    let ?f = "\<lambda>p. baseValues now inp ?U (Some e) (p_id p)"
    have e1: "e \<in> set (MemoryPerformance st)"
      using Some by (auto simp: find_Some_iff)
    have e2: "performance_reads_back e"
      using ex by (simp add: Some)
    note e = e1 e2
    from e1 have "find (\<lambda>p. p_id p = p_id e) (MemoryPerformance st) \<noteq> None"
      by (auto simp: find_None_iff)
    then obtain x where x: "find (\<lambda>p. p_id p = p_id e) (MemoryPerformance st) = Some x"
      by blast
    then have "p_id x = p_id e" by (auto simp: find_Some_iff)
    with x have ret: "first (map ?f (select_where (\<lambda>p. eq_sql (Some (p_id p)) (Some (p_id e)))
                  (MemoryPerformance st))) = Some (?f e)"
      by (simp add: first_map_filter select_where_def)
    have all: "list_all performance_reads_back
                 (map ?f (select_where (\<lambda>p. eq_sql (Some (p_id p)) (Some (p_id e)))
                    (MemoryPerformance st)))"
      using rb Some by (simp add: list_all_iff)
    have res: "upsertPerformance now inp (signed_in u) st
         = (Inr (Some (?f e)),
            st\<lparr>MemoryPerformance := map (\<lambda>p. if p_id p = p_id e then ?f p else p)
                                      (MemoryPerformance st)\<rparr>)"
      using assms(2) g look Some e(2) ret all
      by (simp add: upsertPerformance_def defineAction_def upsertPerformance_handler_def
          requireUser_signed_in find_accessible_game read_rows_def update_where_def)
    have "(\<lambda>p. if p_id p = p_id e then ?f p else p) e
            \<in> set (map (\<lambda>p. if p_id p = p_id e then ?f p else p) (MemoryPerformance st))"
      unfolding set_map using e(1) by (rule imageI)
    then have m: "?f e \<in> set (map (\<lambda>p. if p_id p = p_id e then ?f p else p) (MemoryPerformance st))"
      by simp
    show ?thesis
      unfolding Some res by (intro exI conjI, rule refl) (use m in simp_all)
  qed
qed

text \<open>
  C3. Game 2 of the catalog has no owner, so it is accessible to every caller by the
  specification. Alice reports on it and gets NOT_FOUND "Game not found."; nothing is merged
  and no row is written. The condition of the lookup is the one of startSession.
\<close>

theorem upsertPerformance_system_owned_not_found:
  "game2 \<in> set (MemoryGames catalog) \<and> g_id game2 = 2 \<and> g_ownerId game2 = None \<and>
   upsertPerformance 10 \<lparr>up_gameId = 2, up_totalSessions = Some 5, up_averageScore = None,
       up_bestScore = None, up_difficultyPreference = None\<rparr> (signed_in ''alice'') catalog
   = (Inl (ActionError NOT_FOUND ''Game not found.''), catalog)"
  by (simp add: upsertPerformance_def defineAction_def upsertPerformance_input_def issue_def
      upsertPerformance_handler_def requireUser_signed_in accessible_game_def limit_def
      select_where_def catalog_def empty_store_def game1_def game2_def game3_def game4_def)

text \<open>
  On a game of her own, a first report with only totalSessions = 5 creates the row with both
  scores 0, and a second with only bestScore = 90 keeps the 5 and the 0.
\<close>

lemma upsertPerformance_first_and_second:
  "upsertPerformance 10 \<lparr>up_gameId = 1, up_totalSessions = Some 5, up_averageScore = None,
       up_bestScore = None, up_difficultyPreference = None\<rparr> (signed_in ''alice'') catalog
   = (Inr (Some \<lparr>p_id = 1, p_userId = ''alice'', p_gameId = 1, p_totalSessions = 5,
                  p_averageScore = 0, p_bestScore = 0, p_difficultyPreference = None,
                  p_updatedAt = 10\<rparr>),
      catalog\<lparr>MemoryPerformance :=
        [\<lparr>p_id = 1, p_userId = ''alice'', p_gameId = 1, p_totalSessions = 5,
          p_averageScore = 0, p_bestScore = 0, p_difficultyPreference = None,
          p_updatedAt = 10\<rparr>]\<rparr>)"
  "upsertPerformance 20 \<lparr>up_gameId = 1, up_totalSessions = None, up_averageScore = None,
       up_bestScore = Some 90, up_difficultyPreference = None\<rparr> (signed_in ''alice'')
     (catalog\<lparr>MemoryPerformance :=
        [\<lparr>p_id = 1, p_userId = ''alice'', p_gameId = 1, p_totalSessions = 5,
          p_averageScore = 0, p_bestScore = 0, p_difficultyPreference = None,
          p_updatedAt = 10\<rparr>]\<rparr>)
   = (Inr (Some \<lparr>p_id = 1, p_userId = ''alice'', p_gameId = 1, p_totalSessions = 5,
                  p_averageScore = 0, p_bestScore = 90, p_difficultyPreference = None,
                  p_updatedAt = 20\<rparr>),
      catalog\<lparr>MemoryPerformance :=
        [\<lparr>p_id = 1, p_userId = ''alice'', p_gameId = 1, p_totalSessions = 5,
          p_averageScore = 0, p_bestScore = 90, p_difficultyPreference = None,
          p_updatedAt = 20\<rparr>]\<rparr>)"
  by (simp_all add: upsertPerformance_def upsertPerformance_handler_def
      upsertPerformance_input_def defineAction_def issue_def requireUser_signed_in
      accessible_game_def own_performance_def limit_def update_where_def select_where_def
      baseValues_def Let_def read_rows_def performance_reads_back_def number_reads_back_def
      reads_back_def safe_integer_def catalog_def empty_store_def
      game1_def game2_def game3_def game4_def)

section \<open>Names and game types\<close>

lemma createGame_rejects_empty:
  "cg_name inp = [] \<or> cg_gameType inp = [] \<Longrightarrow>
     \<exists>issues. createGame now inp c st = (Inl (ActionInputError issues), st)"
  by (auto simp: createGame_def defineAction_def createGame_input_def issue_def
      split: list.splits)

lemma updateGame_rejects_empty_name:
  "ug_name inp = Some [] \<Longrightarrow>
     \<exists>issues. updateGame inp c st = (Inl (ActionInputError issues), st)"
  by (simp add: updateGame_def defineAction_def updateGame_input_def issue_def)

lemma createGame_names:
  assumes "\<forall>g \<in> set (MemoryGames st). g_name g \<noteq> []"
  shows "\<forall>g \<in> set (MemoryGames (snd (createGame now inp c st))). g_name g \<noteq> []"
proof (cases "createGame_input inp = []")
  case True
  then have "cg_name inp \<noteq> []"
    by (auto simp: createGame_input_def issue_def split: if_splits)
  then show ?thesis
    using assms True
    by (auto simp: createGame_def defineAction_def createGame_handler_def Let_def
        split: sum.splits)
next
  case False
  then show ?thesis
    using assms by (simp add: createGame_def defineAction_def split: list.splits)
qed

lemma updateGame_names:
  assumes "\<forall>g \<in> set (MemoryGames st). g_name g \<noteq> []"
  shows "\<forall>g \<in> set (MemoryGames (snd (updateGame inp c st))). g_name g \<noteq> []"
proof (cases "updateGame_input inp = []")
  case True
  then have n: "ug_name inp \<noteq> Some []"
    by (auto simp: updateGame_input_def issue_def split: if_splits)
  have "\<And>g. g_name g \<noteq> [] \<Longrightarrow> g_name (set_game (copy_defined (rest_entries inp)) g) \<noteq> []"
    using n by (cases "ug_name inp") (simp_all add: set_game_name)
  then show ?thesis
    using assms True
    by (auto simp: updateGame_def defineAction_def updateGame_handler_def Let_def
        update_where_def split: sum.splits option.splits)
next
  case False
  then show ?thesis
    using assms by (simp add: updateGame_def defineAction_def split: list.splits)
qed

lemma perform_names:
  assumes "\<forall>g \<in> set (MemoryGames st). g_name g \<noteq> []"
  shows "\<forall>g \<in> set (MemoryGames (perform req st)). g_name g \<noteq> []"
proof -
  obtain now c a where req: "req = (now, c, a)" by (cases req)
  show ?thesis
  proof (cases a)
    case (CreateGame inp)
    then show ?thesis using createGame_names [OF assms] by (simp add: req)
  next
    case (UpdateGame inp)
    then show ?thesis using updateGame_names [OF assms] by (simp add: req)
  qed (use assms in \<open>simp_all add: req listMyGames_frame startSession_frame
      completeSession_frame recordRound_frame upsertPerformance_frame\<close>)
qed

lemma run_names:
  assumes "\<forall>g \<in> set (MemoryGames st). g_name g \<noteq> []"
  shows "\<forall>g \<in> set (MemoryGames (run reqs st)). g_name g \<noteq> []"
  using assms
proof (induction reqs arbitrary: st)
  case Nil
  then show ?case by (simp add: run_def)
next
  case (Cons r rs)
  have "run (r # rs) st = run rs (perform r st)" by (simp add: run_def)
  then show ?case
    using Cons.IH [OF perform_names [OF Cons.prems, of r]] by simp
qed

lemma updateGame_empties_gameType:
  assumes "distinct (map g_id (MemoryGames st))"
    and "g \<in> set (MemoryGames st)" and "g_ownerId g = Some u"
  shows "updateGame \<lparr>ug_id = g_id g, ug_name = None, ug_description = None,
             ug_gameType = Some [], ug_difficultyLevels = None, ug_isActive = None\<rparr>
           (signed_in u) st
         = (Inr (Some (g\<lparr>g_gameType := []\<rparr>)),
            st\<lparr>MemoryGames :=
                 map (\<lambda>x. if g_id x = g_id g then x\<lparr>g_gameType := []\<rparr> else x)
                   (MemoryGames st)\<rparr>)"
proof -
  let ?inp = "\<lparr>ug_id = g_id g, ug_name = None, ug_description = None,
             ug_gameType = Some [], ug_difficultyLevels = None, ug_isActive = None\<rparr>"
  have f: "find (\<lambda>y. g_id y = g_id g \<and> g_ownerId y = Some u) (MemoryGames st) = Some g"
    using assms by (rule find_by_id)
  have only: "\<And>x. x \<in> set (MemoryGames st) \<Longrightarrow> g_id x = g_id g \<Longrightarrow> x = g"
    using assms(1,2) by (meson distinct_map inj_onD)
  have "filter (\<lambda>x. g_id x = g_id g \<and> g_ownerId x = Some u) (MemoryGames st)
          = filter (\<lambda>x. g_id x = g_id g) (MemoryGames st)"
    by (rule filter_cong) (auto simp: assms(3) dest: only)
  then have sel: "select_where (owned_game (g_id g) u) (MemoryGames st) = [g]"
    using filter_by_id [OF assms(1,2)] by (simp add: select_where_def owned_game_iff)
  have data: "copy_defined (rest_entries ?inp) = [(''gameType'', Str [])]"
    by (simp add: rest_entries_def)
  have setg: "\<And>x. set_game [(''gameType'', Str [])] x = x\<lparr>g_gameType := []\<rparr>"
    by (simp add: set_game_def)
  have upd: "map (\<lambda>x. if owned_game (g_id g) u x = Some True
                        then set_game [(''gameType'', Str [])] x else x) (MemoryGames st)
               = map (\<lambda>x. if g_id x = g_id g then x\<lparr>g_gameType := []\<rparr> else x) (MemoryGames st)"
    by (rule map_cong) (auto simp: owned_game_iff assms(3) setg dest: only)
  show ?thesis
    by (simp add: updateGame_def defineAction_def updateGame_input_def issue_def
        updateGame_handler_def requireUser_signed_in limit_def Let_def data setg
        update_where_def sel upd)
qed

text \<open>
  C10. For every store with distinct game ids and every game \<open>g\<close> in it that the caller
  owns, updateGame with the id of \<open>g\<close> and only gameType = "" parses, returns \<open>g\<close> with the
  empty gameType and nothing else changed, and stores it in place of \<open>g\<close>. Game 1 of the
  catalog, whose gameType is "sequence", is such a game. createGame rejects an empty
  gameType, as it rejects an empty name, and updateGame rejects an empty name. And when no
  game of a store has the empty name, no game has it after any sequence of requests.
\<close>

theorem gameType_may_be_emptied_name_never:
  "(\<forall>st g u. distinct (map g_id (MemoryGames st)) \<and> g \<in> set (MemoryGames st) \<and>
        g_ownerId g = Some u \<longrightarrow>
        updateGame \<lparr>ug_id = g_id g, ug_name = None, ug_description = None,
            ug_gameType = Some [], ug_difficultyLevels = None, ug_isActive = None\<rparr>
          (signed_in u) st
        = (Inr (Some (g\<lparr>g_gameType := []\<rparr>)),
           st\<lparr>MemoryGames :=
                map (\<lambda>x. if g_id x = g_id g then x\<lparr>g_gameType := []\<rparr> else x)
                  (MemoryGames st)\<rparr>))
   \<and> (distinct (map g_id (MemoryGames catalog)) \<and> game1 \<in> set (MemoryGames catalog) \<and>
      g_ownerId game1 = Some ''alice'' \<and> g_gameType game1 = ''sequence'')
   \<and> (\<forall>now inp c st. cg_name inp = [] \<or> cg_gameType inp = [] \<longrightarrow>
         (\<exists>issues. createGame now inp c st = (Inl (ActionInputError issues), st)))
   \<and> (\<forall>inp c st. ug_name inp = Some [] \<longrightarrow>
         (\<exists>issues. updateGame inp c st = (Inl (ActionInputError issues), st)))
   \<and> (\<forall>reqs st. (\<forall>g \<in> set (MemoryGames st). g_name g \<noteq> []) \<longrightarrow>
         (\<forall>g \<in> set (MemoryGames (run reqs st)). g_name g \<noteq> []))"
proof (intro conjI)
  show "\<forall>st g u. distinct (map g_id (MemoryGames st)) \<and> g \<in> set (MemoryGames st) \<and>
        g_ownerId g = Some u \<longrightarrow>
        updateGame \<lparr>ug_id = g_id g, ug_name = None, ug_description = None,
            ug_gameType = Some [], ug_difficultyLevels = None, ug_isActive = None\<rparr>
          (signed_in u) st
        = (Inr (Some (g\<lparr>g_gameType := []\<rparr>)),
           st\<lparr>MemoryGames :=
                map (\<lambda>x. if g_id x = g_id g then x\<lparr>g_gameType := []\<rparr> else x)
                  (MemoryGames st)\<rparr>)"
    using updateGame_empties_gameType by blast
next
  show "distinct (map g_id (MemoryGames catalog))" and "game1 \<in> set (MemoryGames catalog)"
    and "g_ownerId game1 = Some ''alice''" and "g_gameType game1 = ''sequence''"
    by (simp_all add: catalog_def empty_store_def game1_def game2_def game3_def game4_def)
next
  show "\<forall>now inp c st. cg_name inp = [] \<or> cg_gameType inp = [] \<longrightarrow>
         (\<exists>issues. createGame now inp c st = (Inl (ActionInputError issues), st))"
    using createGame_rejects_empty by blast
next
  show "\<forall>inp c st. ug_name inp = Some [] \<longrightarrow>
         (\<exists>issues. updateGame inp c st = (Inl (ActionInputError issues), st))"
    using updateGame_rejects_empty_name by blast
next
  show "\<forall>reqs st. (\<forall>g \<in> set (MemoryGames st). g_name g \<noteq> []) \<longrightarrow>
         (\<forall>g \<in> set (MemoryGames (run reqs st)). g_name g \<noteq> [])"
    using run_names by blast
qed

text \<open>
  Alice empties the gameType of game 1; the other games stay as they are. In the run of
  \<open>season\<close> every game has a name, and a game without a gameType cannot be created.
\<close>

theorem gameType_may_be_emptied_name_never_witness:
  "updateGame \<lparr>ug_id = 1, ug_name = None, ug_description = None, ug_gameType = Some [],
       ug_difficultyLevels = None, ug_isActive = None\<rparr> (signed_in ''alice'') catalog
     = (Inr (Some \<lparr>g_id = 1, g_ownerId = Some ''alice'', g_name = ''Recall'',
                    g_description = None, g_gameType = [], g_difficultyLevels = JNull,
                    g_isActive = True, g_createdAt = 0\<rparr>),
        catalog\<lparr>MemoryGames :=
          [\<lparr>g_id = 1, g_ownerId = Some ''alice'', g_name = ''Recall'',
             g_description = None, g_gameType = [], g_difficultyLevels = JNull,
             g_isActive = True, g_createdAt = 0\<rparr>, game2, game3, game4]\<rparr>)
   \<and> g_gameType game1 = ''sequence''
   \<and> [] \<notin> g_name ` set (MemoryGames (run season empty_store))
   \<and> (\<exists>issues. createGame 5 \<lparr>cg_name = ''Recall'', cg_description = None, cg_gameType = [],
                     cg_difficultyLevels = None, cg_isActive = None\<rparr> (signed_in ''alice'') catalog
          = (Inl (ActionInputError issues), catalog))"
proof -
  have upd: "(\<forall>st g u. distinct (map g_id (MemoryGames st)) \<and> g \<in> set (MemoryGames st) \<and>
        g_ownerId g = Some u \<longrightarrow>
        updateGame \<lparr>ug_id = g_id g, ug_name = None, ug_description = None,
            ug_gameType = Some [], ug_difficultyLevels = None, ug_isActive = None\<rparr>
          (signed_in u) st
        = (Inr (Some (g\<lparr>g_gameType := []\<rparr>)),
           st\<lparr>MemoryGames :=
                map (\<lambda>x. if g_id x = g_id g then x\<lparr>g_gameType := []\<rparr> else x)
                  (MemoryGames st)\<rparr>))"
    and cat: "distinct (map g_id (MemoryGames catalog))" "game1 \<in> set (MemoryGames catalog)"
      "g_ownerId game1 = Some ''alice''" "g_gameType game1 = ''sequence''"
    and cg: "\<forall>now inp c st. cg_name inp = [] \<or> cg_gameType inp = [] \<longrightarrow>
         (\<exists>issues. createGame now inp c st = (Inl (ActionInputError issues), st))"
    and names: "\<forall>reqs st. (\<forall>g \<in> set (MemoryGames st). g_name g \<noteq> []) \<longrightarrow>
         (\<forall>g \<in> set (MemoryGames (run reqs st)). g_name g \<noteq> [])"
    using gameType_may_be_emptied_name_never by blast+
  from upd cat(1-3)
  have "updateGame \<lparr>ug_id = g_id game1, ug_name = None, ug_description = None,
            ug_gameType = Some [], ug_difficultyLevels = None, ug_isActive = None\<rparr>
          (signed_in ''alice'') catalog
        = (Inr (Some (game1\<lparr>g_gameType := []\<rparr>)),
           catalog\<lparr>MemoryGames :=
                map (\<lambda>x. if g_id x = g_id game1 then x\<lparr>g_gameType := []\<rparr> else x)
                  (MemoryGames catalog)\<rparr>)"
    by blast
  then have a: "updateGame \<lparr>ug_id = 1, ug_name = None, ug_description = None, ug_gameType = Some [],
       ug_difficultyLevels = None, ug_isActive = None\<rparr> (signed_in ''alice'') catalog
     = (Inr (Some \<lparr>g_id = 1, g_ownerId = Some ''alice'', g_name = ''Recall'',
                    g_description = None, g_gameType = [], g_difficultyLevels = JNull,
                    g_isActive = True, g_createdAt = 0\<rparr>),
        catalog\<lparr>MemoryGames :=
          [\<lparr>g_id = 1, g_ownerId = Some ''alice'', g_name = ''Recall'',
             g_description = None, g_gameType = [], g_difficultyLevels = JNull,
             g_isActive = True, g_createdAt = 0\<rparr>, game2, game3, game4]\<rparr>)"
    by (simp add: catalog_def empty_store_def game1_def game2_def game3_def game4_def)
  have e: "\<forall>g \<in> set (MemoryGames empty_store). g_name g \<noteq> []"
    by (simp add: empty_store_def)
  from names e
  have "\<forall>g \<in> set (MemoryGames (run season empty_store)). g_name g \<noteq> []"
    by blast
  then have b: "[] \<notin> g_name ` set (MemoryGames (run season empty_store))"
    by force
  have "cg_name \<lparr>cg_name = ''Recall'', cg_description = None, cg_gameType = [],
                     cg_difficultyLevels = None, cg_isActive = None\<rparr> = []
         \<or> cg_gameType \<lparr>cg_name = ''Recall'', cg_description = None, cg_gameType = [],
                     cg_difficultyLevels = None, cg_isActive = None\<rparr> = []"
    by simp
  with cg
  have c: "\<exists>issues. createGame 5 \<lparr>cg_name = ''Recall'', cg_description = None, cg_gameType = [],
                     cg_difficultyLevels = None, cg_isActive = None\<rparr> (signed_in ''alice'') catalog
          = (Inl (ActionInputError issues), catalog)"
    by blast
  from a cat(4) b c show ?thesis by (intro conjI)
qed

section \<open>Primary keys along a run\<close>

lemma createGame_ids:
  assumes "distinct (map g_id (MemoryGames st))"
  shows "distinct (map g_id (MemoryGames (snd (createGame now inp c st))))"
proof -
  have "MemoryGames (snd (createGame now inp c st)) = MemoryGames st
      \<or> (\<exists>g. MemoryGames (snd (createGame now inp c st)) = MemoryGames st @ [g]
             \<and> g_id g = next_id (map g_id (MemoryGames st)))"
    by (simp add: createGame_def defineAction_def createGame_handler_def Let_def
        split: sum.splits list.splits)
  then show ?thesis using assms distinct_append_fresh [of g_id "MemoryGames st"] by auto
qed

lemma updateGame_ids:
  "map g_id (MemoryGames (snd (updateGame inp c st))) = map g_id (MemoryGames st)"
  by (simp add: updateGame_def defineAction_def updateGame_handler_def Let_def
      update_where_def comp_def set_game_id if_distrib [of g_id]
      split: sum.splits list.splits option.splits)

lemma startSession_ids:
  assumes "distinct (map s_id (MemorySessions st))"
  shows "distinct (map s_id (MemorySessions (snd (startSession now inp c st))))"
proof -
  have "MemorySessions (snd (startSession now inp c st)) = MemorySessions st
      \<or> (\<exists>s. MemorySessions (snd (startSession now inp c st)) = MemorySessions st @ [s]
             \<and> s_id s = next_id (map s_id (MemorySessions st)))"
    by (simp add: startSession_def defineAction_def startSession_handler_def Let_def
        split: sum.splits list.splits)
  then show ?thesis using assms distinct_append_fresh [of s_id "MemorySessions st"] by auto
qed

lemma completeSession_ids:
  "map s_id (MemorySessions (snd (completeSession now inp c st))) = map s_id (MemorySessions st)"
  by (simp add: completeSession_def completeSession_handler_def defineAction_def Let_def
      update_where_def comp_def split: sum.splits list.splits option.splits)

lemma recordRound_ids:
  assumes "distinct (map r_id (MemoryRounds st))"
  shows "distinct (map r_id (MemoryRounds (snd (recordRound now inp c st))))"
proof -
  have "MemoryRounds (snd (recordRound now inp c st)) = MemoryRounds st
      \<or> (\<exists>r. MemoryRounds (snd (recordRound now inp c st)) = MemoryRounds st @ [r]
             \<and> r_id r = next_id (map r_id (MemoryRounds st)))"
    by (simp add: recordRound_def defineAction_def recordRound_handler_def Let_def
        split: sum.splits list.splits option.splits)
  then show ?thesis using assms distinct_append_fresh [of r_id "MemoryRounds st"] by auto
qed

lemma upsertPerformance_ids:
  assumes "distinct (map p_id (MemoryPerformance st))"
  shows "distinct (map p_id (MemoryPerformance (snd (upsertPerformance now inp c st))))"
proof -
  let ?rows = "MemoryPerformance st"
  let ?rows' = "MemoryPerformance (snd (upsertPerformance now inp c st))"
  consider (same) "?rows' = ?rows"
    | (ins) U where "?rows' = ?rows @ [baseValues now inp U None (next_id (map p_id ?rows))]"
    | (upd) U e where
        "?rows' = map (\<lambda>p. if p_id p = p_id e then baseValues now inp U (Some e) (p_id p) else p) ?rows"
    using upsertPerformance_rows [of now inp c st] by blast
  then show ?thesis
  proof cases
    case same
    then show ?thesis using assms by simp
  next
    case ins
    show ?thesis
      unfolding ins using assms by (intro distinct_append_fresh) simp_all
  next
    case upd
    have "map p_id ?rows' = map p_id ?rows"
      unfolding upd by (simp add: comp_def)
    then show ?thesis using assms by simp
  qed
qed

lemma perform_primary_keys:
  assumes "primary_keys st"
  shows "primary_keys (perform req st)"
proof -
  obtain now c a where req: "req = (now, c, a)" by (cases req)
  show ?thesis
  proof (cases a)
    case (CreateGame inp)
    then show ?thesis
      using assms createGame_ids [of st now inp c]
      by (simp add: req primary_keys_def createGame_frame)
  next
    case (UpdateGame inp)
    then show ?thesis
      using assms by (simp add: req primary_keys_def updateGame_frame updateGame_ids)
  next
    case (ListMyGames inp)
    then show ?thesis using assms by (simp add: req listMyGames_frame)
  next
    case (StartSession inp)
    then show ?thesis
      using assms startSession_ids [of st now inp c]
      by (simp add: req primary_keys_def startSession_frame)
  next
    case (CompleteSession inp)
    then show ?thesis
      using assms by (simp add: req primary_keys_def completeSession_frame completeSession_ids)
  next
    case (RecordRound inp)
    then show ?thesis
      using assms recordRound_ids [of st now inp c]
      by (simp add: req primary_keys_def recordRound_frame)
  next
    case (UpsertPerformance inp)
    then show ?thesis
      using assms upsertPerformance_ids [of st now inp c]
      by (simp add: req primary_keys_def upsertPerformance_frame)
  qed
qed

text \<open>
  The theorems above that speak of the row with a given id assume that the ids of its table
  are distinct. They are, in every store that the actions build from the empty store.
\<close>

lemma run_primary_keys: "primary_keys st \<Longrightarrow> primary_keys (run reqs st)"
proof (induction reqs arbitrary: st)
  case Nil
  then show ?case by (simp add: run_def)
next
  case (Cons r rs)
  have "run (r # rs) st = run rs (perform r st)" by (simp add: run_def)
  then show ?case using Cons.IH [OF perform_primary_keys [OF Cons.prems, of r]] by simp
qed

lemma primary_keys_empty: "primary_keys empty_store"
  by (simp add: primary_keys_def empty_store_def)

end
